theory Spec2Isabelle
  imports Main "HOL-Library.AList"
begin

section \<open>Python strings\<close>

text \<open>
  A Python \<open>str\<close> is modelled as a \<open>string\<close>; a character stands for a code point
  below 256. The functions below are the \<open>str\<close> methods that
  \<open>extract_schema.py\<close> calls.
\<close>

definition dquote :: char where
  "dquote = CHR 0x22"

text \<open>\<open>str.isspace\<close> on one character, for code points below 256.\<close>

definition is_space :: "char \<Rightarrow> bool" where
  "is_space c = (c \<in> set [CHR 0x09, CHR 0x0A, CHR 0x0B, CHR 0x0C, CHR 0x0D,
                            CHR 0x1C, CHR 0x1D, CHR 0x1E, CHR 0x1F, CHR 0x20,
                            CHR 0x85, CHR 0xA0])"

text \<open>\<open>s.strip()\<close>: whitespace removed at both ends.\<close>

definition strip :: "string \<Rightarrow> string" where
  "strip s = rev (dropWhile is_space (rev (dropWhile is_space s)))"

text \<open>\<open>s.startswith(p)\<close>.\<close>

definition startswith :: "string \<Rightarrow> string \<Rightarrow> bool" where
  "startswith s p = (take (length p) s = p)"

text \<open>
  \<open>s.split(sep)\<close> for a separator of one character: the pieces between the
  occurrences of \<open>sep\<close>, empty pieces included, so the result is never empty.
\<close>

fun split_on :: "char \<Rightarrow> string \<Rightarrow> string list" where
  "split_on sep [] = [[]]"
| "split_on sep (c # cs) =
     (if c = sep then [] # split_on sep cs
      else (case split_on sep cs of
              [] \<Rightarrow> [[c]]
            | r # rs \<Rightarrow> (c # r) # rs))"

text \<open>\<open>sep.join(xs)\<close>.\<close>

fun join_with :: "string \<Rightarrow> string list \<Rightarrow> string" where
  "join_with sep [] = []"
| "join_with sep [x] = x"
| "join_with sep (x # y # ys) = x @ sep @ join_with sep (y # ys)"

text \<open>\<open>sub in s\<close>: \<open>sub\<close> occurs in \<open>s\<close> as a contiguous piece.\<close>

fun contains :: "string \<Rightarrow> string \<Rightarrow> bool" where
  "contains sub [] = (sub = [])"
| "contains sub (c # cs) = (startswith (c # cs) sub \<or> contains sub cs)"

text \<open>
  Truthiness of a value that is \<open>None\<close> or a \<open>str\<close>, and \<open>a or b\<close> on such
  values: \<open>None\<close> and the empty string are false.
\<close>

fun truthy :: "string option \<Rightarrow> bool" where
  "truthy None = False"
| "truthy (Some s) = (s \<noteq> [])"

definition py_or :: "string option \<Rightarrow> string option \<Rightarrow> string option" where
  "py_or a b = (if truthy a then a else b)"


section \<open>Paths (\<open>pathlib\<close> on POSIX)\<close>

text \<open>
  A \<open>pathlib.PurePosixPath\<close>: its root (\<open>''''\<close>, \<open>''/''\<close> or \<open>''//''\<close>) and its
  parts below the root. Parsing a string drops empty components and \<open>.\<close>
  components and keeps \<open>..\<close> components.
\<close>

record posix_path =
  root :: string
  parts :: "string list"

definition path_root :: "string \<Rightarrow> string" where
  "path_root s =
     (if startswith s ''//'' \<and> \<not> startswith s ''///'' then ''//''
      else if startswith s ''/'' then ''/''
      else [])"

definition path_parts :: "string \<Rightarrow> string list" where
  "path_parts s = filter (\<lambda>c. c \<noteq> [] \<and> c \<noteq> ''.'') (split_on CHR ''/'' s)"

text \<open>\<open>Path(s)\<close>.\<close>

definition Path :: "string \<Rightarrow> posix_path" where
  "Path s = \<lparr>root = path_root s, parts = path_parts s\<rparr>"

text \<open>\<open>p.parent\<close>: a path without parts is its own parent.\<close>

definition parent :: "posix_path \<Rightarrow> posix_path" where
  "parent p = p\<lparr>parts := butlast (parts p)\<rparr>"

text \<open>
  \<open>p / s\<close>: an absolute segment replaces the path, a relative one is
  appended to it.
\<close>

definition joinpath :: "posix_path \<Rightarrow> string \<Rightarrow> posix_path" where
  "joinpath p s =
     (if startswith s ''/'' then Path s
      else p\<lparr>parts := parts p @ path_parts s\<rparr>)"

text \<open>\<open>str(p)\<close>.\<close>

definition path_str :: "posix_path \<Rightarrow> string" where
  "path_str p =
     (if root p = [] \<and> parts p = [] then ''.''
      else root p @ join_with ''/'' (parts p))"

text \<open>
  \<open>str(p.resolve())\<close> depends on the file system, so the catalog parser below
  takes it as a parameter \<open>canon\<close>. On a file system without symbolic links it
  is the following function of the working directory \<open>cwd\<close> (the parts of an
  absolute path): a relative path is placed below \<open>cwd\<close>, every \<open>..\<close> removes
  the component before it, and \<open>..\<close> at the root stays at the root.
\<close>

definition collapse :: "string list \<Rightarrow> string list" where
  "collapse cs = foldl (\<lambda>acc c. if c = ''..'' then butlast acc else acc @ [c]) [] cs"

definition resolve_nolinks :: "string list \<Rightarrow> posix_path \<Rightarrow> string" where
  "resolve_nolinks cwd p =
     ''/'' @ join_with ''/'' (collapse ((if root p = [] then cwd else []) @ parts p))"


section \<open>Catalog parser: \<open>create_uri_mapper\<close>\<close>

text \<open>
  The state of the loop over the catalog's lines: the dictionary \<open>urn_map\<close> and
  \<open>current_base\<close>. The dictionary is an association list in insertion order;
  \<open>urn_map[urn] = v\<close> is \<open>AList.update\<close>, which replaces the value of a key
  that is there and appends a new key otherwise.
\<close>

record parser_state =
  urn_map :: "(string \<times> string) list"
  current_base :: "string option"

definition init_state :: parser_state where
  "init_state = \<lparr>urn_map = [], current_base = None\<rparr>"

text \<open>
  The path of a \<open>URI\<close> entry: \<open>catalog_dir / current_base / local_path\<close> when
  \<open>current_base\<close> is true (neither \<open>None\<close> nor empty), else
  \<open>catalog_dir / local_path\<close>.
\<close>

definition full_path :: "posix_path \<Rightarrow> string option \<Rightarrow> string \<Rightarrow> posix_path" where
  "full_path catalog_dir base local_path =
     (case base of
        Some b \<Rightarrow>
          if b \<noteq> [] then joinpath (joinpath catalog_dir b) local_path
          else joinpath catalog_dir local_path
      | None \<Rightarrow> joinpath catalog_dir local_path)"

text \<open>One iteration of the loop body.\<close>

definition process_line ::
  "(posix_path \<Rightarrow> string) \<Rightarrow> posix_path \<Rightarrow> parser_state \<Rightarrow> string \<Rightarrow> parser_state" where
  "process_line canon catalog_dir st raw =
     (let line = strip raw in
      if line = [] \<or> startswith line ''--'' then st
      else if startswith line ''BASE'' then
        (let ps = split_on dquote line in
         if length ps \<ge> 2 then
           (let b = ps ! 1 in
            st\<lparr>current_base := Some (if startswith b ''../../'' then drop 6 b else b)\<rparr>)
         else st)
      else if startswith line ''URI'' then
        (let ps = split_on dquote line in
         if length ps \<ge> 4 then
           (let urn = ps ! 1;
                local_path = ps ! 3
            in st\<lparr>urn_map :=
                 AList.update urn (canon (full_path catalog_dir (current_base st) local_path))
                   (urn_map st)\<rparr>)
         else st)
      else st)"

fun parse_lines ::
  "(posix_path \<Rightarrow> string) \<Rightarrow> posix_path \<Rightarrow> parser_state \<Rightarrow> string list \<Rightarrow> parser_state" where
  "parse_lines canon catalog_dir st [] = st"
| "parse_lines canon catalog_dir st (l # ls) =
     parse_lines canon catalog_dir (process_line canon catalog_dir st l) ls"

text \<open>
  The dictionary that \<open>create_uri_mapper\<close> builds from the lines of the file at
  \<open>catalog_path\<close>. Opening the file is outside the model: the lines are those
  a successful read yields.
\<close>

definition catalog_map ::
  "(posix_path \<Rightarrow> string) \<Rightarrow> string \<Rightarrow> string list \<Rightarrow> (string \<times> string) list" where
  "catalog_map canon catalog_path ls =
     urn_map (parse_lines canon (parent (Path catalog_path)) init_state ls)"

text \<open>
  Two views of a line, used to state properties of the parser: the value a
  \<open>BASE\<close> line hands to \<open>current_base\<close> before the prefix is stripped, and the
  pair \<open>(urn, local_path)\<close> a \<open>URI\<close> line stores. Both are \<open>None\<close> on a line
  that takes another branch of the loop body (lemmas \<open>process_line_base\<close>,
  \<open>process_line_no_base\<close>, \<open>process_line_uri\<close>, \<open>process_line_no_uri\<close>).
\<close>

definition base_field :: "string \<Rightarrow> string option" where
  "base_field raw =
     (let line = strip raw; ps = split_on dquote line in
      if line \<noteq> [] \<and> \<not> startswith line ''--'' \<and> startswith line ''BASE'' \<and> length ps \<ge> 2
      then Some (ps ! 1) else None)"

definition uri_fields :: "string \<Rightarrow> (string \<times> string) option" where
  "uri_fields raw =
     (let line = strip raw; ps = split_on dquote line in
      if line \<noteq> [] \<and> \<not> startswith line ''--'' \<and> \<not> startswith line ''BASE''
         \<and> startswith line ''URI'' \<and> length ps \<ge> 4
      then Some (ps ! 1, ps ! 3) else None)"

definition declares :: "string \<Rightarrow> string \<Rightarrow> bool" where
  "declares urn raw = (case uri_fields raw of None \<Rightarrow> False | Some (u, p) \<Rightarrow> u = urn)"


section \<open>URI resolver: \<open>uri_mapper\<close>\<close>

text \<open>
  The closure \<open>uri_mapper\<close> over the dictionary \<open>m\<close>. \<open>urllib.parse.unquote\<close> is
  a parameter: the properties proved of the resolver hold for every decoder.
  \<open>m.get(k)\<close> is \<open>map_of m k\<close>.
\<close>

definition uri_mapper ::
  "(string \<Rightarrow> string) \<Rightarrow> (string \<times> string) list \<Rightarrow> string option \<Rightarrow> string option" where
  "uri_mapper unquote m uri =
     (case uri of
        None \<Rightarrow> None
      | Some u \<Rightarrow>
          (let decoded_uri = unquote u;
               resolved = py_or (map_of m decoded_uri) (map_of m u)
           in if truthy resolved then resolved else Some u))"

text \<open>
  The keys the call passes to \<open>m.get\<close>, in order: \<open>or\<close> evaluates its second
  operand only when the first is false.
\<close>

definition uri_mapper_lookups ::
  "(string \<Rightarrow> string) \<Rightarrow> (string \<times> string) list \<Rightarrow> string option \<Rightarrow> string list" where
  "uri_mapper_lookups unquote m uri =
     (case uri of
        None \<Rightarrow> []
      | Some u \<Rightarrow>
          (let decoded_uri = unquote u in
           if truthy (map_of m decoded_uri) then [decoded_uri] else [decoded_uri, u]))"

text \<open>
  A decoder to run the resolver with: \<open>unquote\<close> on ASCII text. The string is
  split at \<open>%\<close>; a piece after the first that starts with two hexadecimal
  digits has them replaced by the character they encode, any other piece gets
  its \<open>%\<close> back. An escape of a byte from \<open>0x80\<close> on is part of a UTF-8
  sequence, which \<open>unquote\<close> decodes to a code point; this decoder leaves such
  an escape as it is written, so it is \<open>unquote\<close> only on strings without one.
\<close>

definition hexval :: "char \<Rightarrow> nat option" where
  "hexval c =
     (let n = (of_char c :: nat) in
      if 48 \<le> n \<and> n \<le> 57 then Some (n - 48)
      else if 65 \<le> n \<and> n \<le> 70 then Some (n - 55)
      else if 97 \<le> n \<and> n \<le> 102 then Some (n - 87)
      else None)"

definition unquote_item :: "string \<Rightarrow> string" where
  "unquote_item item =
     (case item of
        h # l # rest \<Rightarrow>
          (case (hexval h, hexval l) of
             (Some a, Some b) \<Rightarrow>
               if 16 * a + b < 128 then char_of (16 * a + b) # rest
               else CHR ''%'' # item
           | _ \<Rightarrow> CHR ''%'' # item)
      | _ \<Rightarrow> CHR ''%'' # item)"

definition unquote_ascii :: "string \<Rightarrow> string" where
  "unquote_ascii s =
     (case split_on CHR ''%'' s of
        [] \<Rightarrow> s
      | b # bs \<Rightarrow> b @ concat (map unquote_item bs))"

text \<open>
  \<open>create_uri_mapper\<close>: the resolver over the dictionary parsed from the
  catalog's lines.
\<close>

definition create_uri_mapper ::
  "(posix_path \<Rightarrow> string) \<Rightarrow> (string \<Rightarrow> string) \<Rightarrow> string \<Rightarrow> string list
     \<Rightarrow> string option \<Rightarrow> string option" where
  "create_uri_mapper canon unquote catalog_path ls =
     uri_mapper unquote (catalog_map canon catalog_path ls)"


section \<open>Schema extractor\<close>

subsection \<open>The schema object graph\<close>

text \<open>
  The objects of the external schema library, as far as the extractor reads
  them. An attribute the code probes with \<open>hasattr\<close> is a \<open>pyattr\<close>: \<open>Missing\<close>,
  or \<open>Has v\<close> with its value. An attribute the code reads without a probe is a
  plain field: every object of that class has it. A value that may be
  \<open>None\<close> is an \<open>option\<close>. A type object is true in a condition (its class
  defines neither \<open>__bool__\<close> nor \<open>__len__\<close>); a content model is a container
  and carries its truth value.

  \<^item> \<open>ty_class\<close> is \<open>type(t).__name__\<close>, \<open>ty_str\<close> is \<open>str(t)\<close>;
  \<^item> \<open>ty_attributes\<close> is the attribute collection, given by its \<open>values()\<close> in
    order; it is true in a condition when it is not empty;
  \<^item> \<open>co_iter_elements\<close> is \<open>Missing\<close> when the content model has no
    \<open>iter_elements\<close>; otherwise it holds what \<open>list(c.iter_elements())\<close>
    does: it raises (\<open>Inl\<close>) or returns the particles (\<open>Inr\<close>).
\<close>

datatype py_error = AttributeError | Raised string

datatype 'a pyattr = Missing | Has 'a

datatype type_obj = TypeObj
    (ty_class: string)
    (ty_str: string)
    (ty_qualified_name: "string option pyattr")
    (ty_name: "string option")
    (ty_content: "content_obj option pyattr")
    (ty_attributes: "attribute_obj list option pyattr")
and content_obj = ContentObj
    (co_class: string)
    (co_truthy: bool)
    (co_iter_elements: "(py_error + element_obj list) pyattr")
and element_obj = ElementObj
    (el_qualified_name: "string option")
    (el_name: "string option")
    (el_type: "type_obj option")
    (el_min_occurs: "int option pyattr")
    (el_max_occurs: "int option pyattr")
    (el_nillable: "bool pyattr")
    (el_default: "string option pyattr")
and attribute_obj = AttributeObj
    (at_name: "string option")
    (at_type: "type_obj option")
    (at_use: "string option pyattr")
    (at_default: "string option pyattr")

subsection \<open>The extracted dictionaries\<close>

text \<open>
  Each dictionary the extractor builds is a record of its keys. In
  \<open>type_info\<close> the keys \<open>content_model\<close>, \<open>attributes\<close> and \<open>child_elements\<close> are
  set only under a condition: there \<open>None\<close> is the absent key. Everywhere
  else \<open>None\<close> is the value \<open>None\<close> of a key that is present.
\<close>

record attribute_info =
  ai_name :: string
  ai_type :: string
  ai_use :: string
  ai_default :: "string option"

record child_info =
  ci_name :: string
  ci_type :: string
  ci_min_occurs :: "int option"
  ci_max_occurs :: "int option"

record type_info =
  ti_name :: "string option"
  ti_qualified_name :: "string option"
  ti_category :: string
  ti_is_complex :: bool
  ti_is_simple :: bool
  ti_content_model :: "string option"
  ti_attributes :: "attribute_info list option"
  ti_child_elements :: "child_info list option"

record element_info =
  ei_name :: "string option"
  ei_qualified_name :: "string option"
  ei_type :: "type_info option"
  ei_min_occurs :: "int option"
  ei_max_occurs :: "int option"
  ei_nillable :: bool
  ei_default :: "string option"

subsection \<open>\<open>extract_type_info\<close> and \<open>extract_complex_type_info\<close>\<close>

text \<open>\<open>x if hasattr(o, a) else d\<close>.\<close>

fun attr_or :: "'a pyattr \<Rightarrow> 'a \<Rightarrow> 'a" where
  "attr_or Missing d = d"
| "attr_or (Has v) d = v"

text \<open>\<open>a or d\<close> with a string \<open>d\<close> that is not empty.\<close>

fun or_default :: "string option \<Rightarrow> string \<Rightarrow> string" where
  "or_default None d = d"
| "or_default (Some s) d = (if s \<noteq> [] then s else d)"

text \<open>
  \<open>t.qualified_name if hasattr(t, 'qualified_name') and t.qualified_name else d\<close>.
\<close>

definition qualified_name_or :: "type_obj \<Rightarrow> string \<Rightarrow> string" where
  "qualified_name_or t d = or_default (attr_or (ty_qualified_name t) None) d"

text \<open>One entry of the \<open>attributes\<close> list (the dictionary display of lines 113 to 118).\<close>

definition attribute_info :: "attribute_obj \<Rightarrow> attribute_info" where
  "attribute_info a =
     \<lparr>ai_name = or_default (at_name a) ''unknown'',
      ai_type = (case at_type a of
                   None \<Rightarrow> ''xs:string''
                 | Some ty \<Rightarrow> qualified_name_or ty (ty_str ty)),
      ai_use = or_default (attr_or (at_use a) None) ''optional'',
      ai_default = attr_or (at_default a) None\<rparr>"

text \<open>One entry of the \<open>child_elements\<close> list (lines 128 to 133).\<close>

definition child_info :: "element_obj \<Rightarrow> child_info" where
  "child_info e =
     \<lparr>ci_name = or_default (py_or (el_qualified_name e) (el_name e)) ''unknown'',
      ci_type = (case el_type e of
                   None \<Rightarrow> ''unknown''
                 | Some ty \<Rightarrow> qualified_name_or ty (ty_class ty)),
      ci_min_occurs = attr_or (el_min_occurs e) (Some 1),
      ci_max_occurs = attr_or (el_max_occurs e) (Some 1)\<rparr>"

text \<open>
  The content of \<open>t\<close> when \<open>hasattr(t, 'content') and t.content\<close> holds.
\<close>

definition true_content :: "type_obj \<Rightarrow> content_obj option" where
  "true_content t =
     (case ty_content t of
        Has (Some c) \<Rightarrow> if co_truthy c then Some c else None
      | _ \<Rightarrow> None)"

text \<open>The key \<open>content_model\<close> (lines 107 and 108).\<close>

definition content_model_of :: "type_obj \<Rightarrow> string option" where
  "content_model_of t = map_option co_class (true_content t)"

text \<open>The key \<open>attributes\<close> (lines 111 to 120).\<close>

definition attributes_of :: "type_obj \<Rightarrow> attribute_info list option" where
  "attributes_of t =
     (case ty_attributes t of
        Has (Some as) \<Rightarrow> if as \<noteq> [] then Some (map attribute_info as) else None
      | _ \<Rightarrow> None)"

text \<open>
  The body of the \<open>try\<close> block (lines 125 to 135): the iteration raises, or
  the key \<open>child_elements\<close> is set when there is at least one particle.
\<close>

definition try_child_elements ::
  "(py_error + element_obj list) \<Rightarrow> py_error + child_info list option" where
  "try_child_elements it =
     (case it of
        Inl e \<Rightarrow> Inl e
      | Inr elements \<Rightarrow>
          Inr (if elements \<noteq> [] then Some (map child_info elements) else None))"

text \<open>
  The key \<open>child_elements\<close> (lines 123 to 137): the \<open>try\<close> block runs when the
  content is true and has \<open>iter_elements\<close>; \<open>except: pass\<close> leaves the key
  absent whatever was raised.
\<close>

definition child_elements_of :: "type_obj \<Rightarrow> child_info list option" where
  "child_elements_of t =
     (case true_content t of
        None \<Rightarrow> None
      | Some c \<Rightarrow>
          (case co_iter_elements c of
             Missing \<Rightarrow> None
           | Has it \<Rightarrow>
               (case try_child_elements it of
                  Inl e \<Rightarrow> None
                | Inr r \<Rightarrow> r)))"

definition extract_type_info :: "type_obj \<Rightarrow> type_info" where
  "extract_type_info t =
     \<lparr>ti_name = attr_or (ty_qualified_name t) None,
      ti_qualified_name = attr_or (ty_qualified_name t) None,
      ti_category = ty_class t,
      ti_is_complex = contains ''Complex'' (ty_class t),
      ti_is_simple = contains ''Simple'' (ty_class t),
      ti_content_model = content_model_of t,
      ti_attributes = attributes_of t,
      ti_child_elements = child_elements_of t\<rparr>"

text \<open>
  \<open>extract_complex_type_info\<close> reads \<open>qualified_name\<close> without a probe, so a
  type object without it raises \<open>AttributeError\<close>. Its lines 152 to 182 are
  those of \<open>extract_type_info\<close>.
\<close>

definition extract_complex_type_info :: "type_obj \<Rightarrow> py_error + type_info" where
  "extract_complex_type_info t =
     (case ty_qualified_name t of
        Missing \<Rightarrow> Inl AttributeError
      | Has q \<Rightarrow>
          Inr \<lparr>ti_name = py_or q (ty_name t),
               ti_qualified_name = py_or q (ty_name t),
               ti_category = ty_class t,
               ti_is_complex = True,
               ti_is_simple = False,
               ti_content_model = content_model_of t,
               ti_attributes = attributes_of t,
               ti_child_elements = child_elements_of t\<rparr>)"

subsection \<open>\<open>extract_element_info\<close>\<close>

definition extract_element_info :: "element_obj \<Rightarrow> element_info" where
  "extract_element_info element =
     \<lparr>ei_name = py_or (el_qualified_name element) (el_name element),
      ei_qualified_name = py_or (el_qualified_name element) (el_name element),
      ei_type = map_option extract_type_info (el_type element),
      ei_min_occurs = attr_or (el_min_occurs element) (Some 1),
      ei_max_occurs = attr_or (el_max_occurs element) (Some 1),
      ei_nillable = attr_or (el_nillable element) False,
      ei_default = attr_or (el_default element) None\<rparr>"


section \<open>Properties of the catalog parser\<close>

subsection \<open>What one line does\<close>

lemma process_line_uri:
  "uri_fields l = Some (u, p) \<Longrightarrow>
   process_line canon d st l =
     st\<lparr>urn_map := AList.update u (canon (full_path d (current_base st) p)) (urn_map st)\<rparr>"
  by (auto simp: uri_fields_def process_line_def Let_def split: if_splits)

lemma process_line_no_uri:
  "uri_fields l = None \<Longrightarrow> urn_map (process_line canon d st l) = urn_map st"
  by (auto simp: uri_fields_def process_line_def Let_def split: if_splits)

lemma process_line_base:
  "base_field l = Some b \<Longrightarrow>
   process_line canon d st l =
     st\<lparr>current_base := Some (if startswith b ''../../'' then drop 6 b else b)\<rparr>"
  by (auto simp: base_field_def process_line_def Let_def split: if_splits)

lemma process_line_no_base:
  "base_field l = None \<Longrightarrow> current_base (process_line canon d st l) = current_base st"
  by (auto simp: base_field_def process_line_def Let_def split: if_splits)

lemma process_line_other_urn:
  assumes "\<not> declares urn l"
  shows "map_of (urn_map (process_line canon d st l)) urn = map_of (urn_map st) urn"
proof (cases "uri_fields l")
  case None
  then show ?thesis by (simp add: process_line_no_uri)
next
  case (Some up)
  obtain u p where up: "up = (u, p)" by (cases up)
  with Some assms have "u \<noteq> urn" by (simp add: declares_def)
  with Some up show ?thesis
    by (simp add: process_line_uri update_conv')
qed

lemma process_line_distinct:
  "distinct (map fst (urn_map st)) \<Longrightarrow>
   distinct (map fst (urn_map (process_line canon d st l)))"
  by (cases "uri_fields l") (auto simp: process_line_no_uri process_line_uri distinct_update)

subsection \<open>What the loop does\<close>

lemma parse_lines_append:
  "parse_lines canon d st (xs @ ys) = parse_lines canon d (parse_lines canon d st xs) ys"
  by (induction xs arbitrary: st) simp_all

lemma parse_lines_other_urn:
  "\<forall>l\<in>set ls. \<not> declares urn l \<Longrightarrow>
   map_of (urn_map (parse_lines canon d st ls)) urn = map_of (urn_map st) urn"
  by (induction ls arbitrary: st) (simp_all add: process_line_other_urn)

lemma parse_lines_keep_base:
  "\<forall>l\<in>set ls. base_field l = None \<Longrightarrow>
   current_base (parse_lines canon d st ls) = current_base st"
  by (induction ls arbitrary: st) (simp_all add: process_line_no_base)

lemma parse_lines_distinct:
  "distinct (map fst (urn_map st)) \<Longrightarrow>
   distinct (map fst (urn_map (parse_lines canon d st ls)))"
  by (induction ls arbitrary: st) (simp_all add: process_line_distinct)

lemma parse_lines_last_decl:
  assumes "uri_fields ul = Some (urn, p)"
    and "\<forall>l\<in>set post. \<not> declares urn l"
  shows "map_of (urn_map (parse_lines canon d st (pre @ ul # post))) urn =
         Some (canon (full_path d (current_base (parse_lines canon d st pre)) p))"
  using assms
  by (simp add: parse_lines_append parse_lines_other_urn process_line_uri update_conv')

lemma joinpath_empty: "joinpath p [] = p"
  by (simp add: joinpath_def startswith_def path_parts_def)

subsection \<open>The example catalog\<close>

text \<open>
  Claim C1, as the code has it. The catalog at \<open>/cat/catalog.xml\<close> holds the
  line \<open>BASE "../../schemas/"\<close> and then the line
  \<open>URI "urn:example:foo" "ignored" "foo.xsd"\<close>. On a file system without
  symbolic links the parsed dictionary is the one entry
  \<open>urn:example:foo\<close> to \<open>/cat/schemas/ignored\<close>: the local path is piece 3 of
  the split at the double quote, which is the second quoted field, and a
  third quoted field is not read. With the line
  \<open>URI "urn:example:foo" "foo.xsd"\<close> the entry is \<open>/cat/schemas/foo.xsd\<close>.
\<close>

theorem uri_line_second_quoted_field:
  \<open>catalog_map (resolve_nolinks cwd) ''/cat/catalog.xml''
     [''BASE "../../schemas/"\<newline>'',
      ''URI "urn:example:foo" "ignored" "foo.xsd"\<newline>'']
   = [(''urn:example:foo'', ''/cat/schemas/ignored'')]
   \<and>
   catalog_map (resolve_nolinks cwd) ''/cat/catalog.xml''
     [''BASE "../../schemas/"\<newline>'',
      ''URI "urn:example:foo" "foo.xsd"\<newline>'']
   = [(''urn:example:foo'', ''/cat/schemas/foo.xsd'')]\<close>
  by code_simp

text \<open>
  Claim C1 as stated fails: for the three-field line the entry of
  \<open>urn:example:foo\<close> is not \<open>/cat/schemas/foo.xsd\<close>.
\<close>

theorem uri_line_third_field_counterexample:
  \<open>map_of (catalog_map (resolve_nolinks []) ''/cat/catalog.xml''
            [''BASE "../../schemas/"\<newline>'',
             ''URI "urn:example:foo" "ignored" "foo.xsd"\<newline>''])
     ''urn:example:foo''
   \<noteq> Some ''/cat/schemas/foo.xsd''\<close>
  by code_simp

subsection \<open>The \<open>../../\<close> prefix of a base\<close>

text \<open>
  Claim C2. Let the catalog hold a \<open>BASE\<close> line whose quoted field is
  \<open>../../X\<close>, later a \<open>URI\<close> line with the fields \<open>(urn, p)\<close>, no \<open>BASE\<close> line
  between the two, and no later \<open>URI\<close> line for \<open>urn\<close>. Then the path stored
  for \<open>urn\<close> is \<open>canon (catalog_dir / X / p)\<close>, for every file system \<open>canon\<close>:
  the prefix is removed once and is not followed as a path to the parent
  directories.
\<close>

theorem base_prefix_stripped:
  assumes "base_field bl = Some (''../../'' @ X)"
    and "\<forall>l\<in>set mid. base_field l = None"
    and "uri_fields ul = Some (urn, p)"
    and "\<forall>l\<in>set post. \<not> declares urn l"
  shows "map_of (catalog_map canon catalog_path (pre @ bl # mid @ ul # post)) urn =
         Some (canon (joinpath (joinpath (parent (Path catalog_path)) X) p))"
proof -
  let ?d = "parent (Path catalog_path)"
  let ?st = "parse_lines canon ?d init_state (pre @ bl # mid)"
  have "?st = parse_lines canon ?d
                (process_line canon ?d (parse_lines canon ?d init_state pre) bl) mid"
    by (simp add: parse_lines_append)
  then have "current_base ?st = Some X"
    using assms(1,2) by (simp add: parse_lines_keep_base process_line_base startswith_def)
  moreover have
    "map_of (urn_map (parse_lines canon ?d init_state ((pre @ bl # mid) @ ul # post))) urn
      = Some (canon (full_path ?d (current_base ?st) p))"
    using assms(3,4) by (rule parse_lines_last_decl)
  ultimately show ?thesis
    by (simp add: catalog_map_def full_path_def joinpath_empty)
qed

text \<open>
  An instance: the base \<open>../../../../dtd/\<close> loses one \<open>../../\<close>; the one that
  is left is part of the path, and the file system resolves it.
\<close>

theorem base_prefix_stripped_witness:
  \<open>base_field ''BASE "../../../../dtd/"\<newline>'' = Some (''../../'' @ ''../../dtd/'')
   \<and> base_field ''URI "urn:b" "b.xsd"\<newline>'' = None
   \<and> base_field ''\<newline>'' = None
   \<and> uri_fields ''  URI "urn:a" "sub/a.xsd"\<newline>'' = Some (''urn:a'', ''sub/a.xsd'')
   \<and> \<not> declares ''urn:a'' ''URI "urn:c" "c.xsd"\<newline>''
   \<and> \<not> declares ''urn:a'' ''BASE "other/"\<newline>''
   \<and> map_of (catalog_map (resolve_nolinks []) ''/opt/cat/catalog.txt''
        ([''-- catalog\<newline>''] @ ''BASE "../../../../dtd/"\<newline>''
           # [''URI "urn:b" "b.xsd"\<newline>'', ''\<newline>'']
           @ ''  URI "urn:a" "sub/a.xsd"\<newline>''
           # [''URI "urn:c" "c.xsd"\<newline>'', ''BASE "other/"\<newline>''])) ''urn:a''
     = Some ''/dtd/sub/a.xsd''\<close>
proof -
  have h1: \<open>base_field ''BASE "../../../../dtd/"\<newline>'' = Some (''../../'' @ ''../../dtd/'')\<close>
    by code_simp
  have h2a: \<open>base_field ''URI "urn:b" "b.xsd"\<newline>'' = None\<close>
    by code_simp
  have h2b: \<open>base_field ''\<newline>'' = None\<close>
    by code_simp
  have h2: \<open>\<forall>l\<in>set [''URI "urn:b" "b.xsd"\<newline>'', ''\<newline>'']. base_field l = None\<close>
    using h2a h2b by simp
  have h3: \<open>uri_fields ''  URI "urn:a" "sub/a.xsd"\<newline>'' = Some (''urn:a'', ''sub/a.xsd'')\<close>
    by code_simp
  have h4a: \<open>\<not> declares ''urn:a'' ''URI "urn:c" "c.xsd"\<newline>''\<close>
    by code_simp
  have h4b: \<open>\<not> declares ''urn:a'' ''BASE "other/"\<newline>''\<close>
    by code_simp
  have h4: \<open>\<forall>l\<in>set [''URI "urn:c" "c.xsd"\<newline>'', ''BASE "other/"\<newline>''].
              \<not> declares ''urn:a'' l\<close>
    using h4a h4b by simp
  have r: \<open>resolve_nolinks []
             (joinpath (joinpath (parent (Path ''/opt/cat/catalog.txt'')) ''../../dtd/'')
                ''sub/a.xsd'')
           = ''/dtd/sub/a.xsd''\<close>
    by code_simp
  from base_prefix_stripped [OF h1 h2 h3 h4, of "resolve_nolinks []" "''/opt/cat/catalog.txt''"
      \<open>[''-- catalog\<newline>'']\<close>]
  show ?thesis
    using h1 h2a h2b h3 h4a h4b unfolding r by blast
qed

subsection \<open>Keys of the dictionary\<close>

text \<open>
  Claim C9. After any number of lines of any catalog the keys of \<open>urn_map\<close>
  are pairwise distinct. When a \<open>URI\<close> line with the fields \<open>(urn, p)\<close> is the
  last one that declares \<open>urn\<close>, the dictionary parsed from the whole catalog
  maps \<open>urn\<close> to the path of that line, computed with the base in force at
  that line, whatever the lines before it stored for \<open>urn\<close>.
\<close>

theorem urn_map_keys_unique_last_wins:
  assumes "uri_fields ul = Some (urn, p)"
    and "\<forall>l\<in>set post. \<not> declares urn l"
  shows "(\<forall>n. distinct (map fst (catalog_map canon catalog_path (take n (pre @ ul # post)))))
       \<and> map_of (catalog_map canon catalog_path (pre @ ul # post)) urn
         = Some (canon (full_path (parent (Path catalog_path))
                   (current_base (parse_lines canon (parent (Path catalog_path)) init_state pre))
                   p))"
proof -
  have "distinct (map fst (urn_map init_state))"
    by (simp add: init_state_def)
  then have "\<And>ls. distinct (map fst (catalog_map canon catalog_path ls))"
    unfolding catalog_map_def by (rule parse_lines_distinct)
  moreover have "map_of (catalog_map canon catalog_path (pre @ ul # post)) urn
         = Some (canon (full_path (parent (Path catalog_path))
                   (current_base (parse_lines canon (parent (Path catalog_path)) init_state pre))
                   p))"
    unfolding catalog_map_def using assms by (rule parse_lines_last_decl)
  ultimately show ?thesis by blast
qed

text \<open>
  An instance: two lines declare \<open>urn:a\<close>; the dictionary keeps one entry for
  it, with the path of the second line.
\<close>

theorem urn_map_keys_unique_last_wins_witness:
  \<open>uri_fields ''URI "urn:a" "new.xsd"\<newline>'' = Some (''urn:a'', ''new.xsd'')
   \<and> \<not> declares ''urn:a'' ''URI "urn:b" "b.xsd"\<newline>''
   \<and> distinct (map fst (catalog_map (resolve_nolinks []) ''/cat/catalog.xml''
        (take 3 ([''URI "urn:a" "old.xsd"\<newline>''] @ ''URI "urn:a" "new.xsd"\<newline>''
                   # [''URI "urn:b" "b.xsd"\<newline>'']))))
   \<and> map_of (catalog_map (resolve_nolinks []) ''/cat/catalog.xml''
        ([''URI "urn:a" "old.xsd"\<newline>''] @ ''URI "urn:a" "new.xsd"\<newline>''
           # [''URI "urn:b" "b.xsd"\<newline>''])) ''urn:a''
     = Some ''/cat/new.xsd''
   \<and> catalog_map (resolve_nolinks []) ''/cat/catalog.xml''
        ([''URI "urn:a" "old.xsd"\<newline>''] @ ''URI "urn:a" "new.xsd"\<newline>''
           # [''URI "urn:b" "b.xsd"\<newline>''])
     = [(''urn:a'', ''/cat/new.xsd''), (''urn:b'', ''/cat/b.xsd'')]\<close>
proof -
  have h1: \<open>uri_fields ''URI "urn:a" "new.xsd"\<newline>'' = Some (''urn:a'', ''new.xsd'')\<close>
    by code_simp
  have h2a: \<open>\<not> declares ''urn:a'' ''URI "urn:b" "b.xsd"\<newline>''\<close>
    by code_simp
  have h2: \<open>\<forall>l\<in>set [''URI "urn:b" "b.xsd"\<newline>'']. \<not> declares ''urn:a'' l\<close>
    using h2a by simp
  have r: \<open>resolve_nolinks []
             (full_path (parent (Path ''/cat/catalog.xml''))
                (current_base (parse_lines (resolve_nolinks []) (parent (Path ''/cat/catalog.xml''))
                   init_state [''URI "urn:a" "old.xsd"\<newline>'']))
                ''new.xsd'')
           = ''/cat/new.xsd''\<close>
    by code_simp
  have e: \<open>catalog_map (resolve_nolinks []) ''/cat/catalog.xml''
        ([''URI "urn:a" "old.xsd"\<newline>''] @ ''URI "urn:a" "new.xsd"\<newline>''
           # [''URI "urn:b" "b.xsd"\<newline>''])
     = [(''urn:a'', ''/cat/new.xsd''), (''urn:b'', ''/cat/b.xsd'')]\<close>
    by code_simp
  from urn_map_keys_unique_last_wins [OF h1 h2, of "resolve_nolinks []" "''/cat/catalog.xml''"
      \<open>[''URI "urn:a" "old.xsd"\<newline>'']\<close>]
  show ?thesis
    using h1 h2a e unfolding r by blast
qed


section \<open>Properties of the resolver\<close>

text \<open>
  Claim C3, as the code has it. Let the decoded form \<open>unquote u\<close> of \<open>u\<close> be a
  key of the dictionary with a path \<open>p\<close> that is not empty, and let decoding
  once more lead to no other path (the twice decoded form is no key, or its
  path is empty, or its path is \<open>p\<close>; the last holds when \<open>unquote u\<close> has no
  escape left). Then the resolver returns \<open>p\<close> for \<open>u\<close> and for \<open>unquote u\<close>.
\<close>

theorem decoded_key_same_path:
  assumes "map_of m (unquote u) = Some p"
    and "p \<noteq> []"
    and "map_of m (unquote (unquote u)) = None
         \<or> map_of m (unquote (unquote u)) = Some []
         \<or> map_of m (unquote (unquote u)) = Some p"
  shows "uri_mapper unquote m (Some u) = Some p
         \<and> uri_mapper unquote m (Some (unquote u)) = Some p"
  using assms by (auto simp: uri_mapper_def py_or_def Let_def)

text \<open>
  An instance: the resolver of the example catalog maps \<open>urn%3Aexample%3Afoo\<close>
  and \<open>urn:example:foo\<close> to the same file.
\<close>

theorem decoded_key_same_path_witness:
  \<open>map_of (catalog_map (resolve_nolinks []) ''/cat/catalog.xml''
             [''BASE "../../schemas/"\<newline>'', ''URI "urn:example:foo" "foo.xsd"\<newline>''])
      (unquote_ascii ''urn%3Aexample%3Afoo'') = Some ''/cat/schemas/foo.xsd''
   \<and> ''/cat/schemas/foo.xsd'' \<noteq> []
   \<and> create_uri_mapper (resolve_nolinks []) unquote_ascii ''/cat/catalog.xml''
        [''BASE "../../schemas/"\<newline>'', ''URI "urn:example:foo" "foo.xsd"\<newline>'']
        (Some ''urn%3Aexample%3Afoo'') = Some ''/cat/schemas/foo.xsd''
   \<and> create_uri_mapper (resolve_nolinks []) unquote_ascii ''/cat/catalog.xml''
        [''BASE "../../schemas/"\<newline>'', ''URI "urn:example:foo" "foo.xsd"\<newline>'']
        (Some (unquote_ascii ''urn%3Aexample%3Afoo'')) = Some ''/cat/schemas/foo.xsd''\<close>
proof -
  let ?m = \<open>catalog_map (resolve_nolinks []) ''/cat/catalog.xml''
             [''BASE "../../schemas/"\<newline>'', ''URI "urn:example:foo" "foo.xsd"\<newline>'']\<close>
  have h1: "map_of ?m (unquote_ascii ''urn%3Aexample%3Afoo'') = Some ''/cat/schemas/foo.xsd''"
    by code_simp
  have h2: "''/cat/schemas/foo.xsd'' \<noteq> []"
    by simp
  have h3: "map_of ?m (unquote_ascii (unquote_ascii ''urn%3Aexample%3Afoo'')) = None
         \<or> map_of ?m (unquote_ascii (unquote_ascii ''urn%3Aexample%3Afoo'')) = Some []
         \<or> map_of ?m (unquote_ascii (unquote_ascii ''urn%3Aexample%3Afoo''))
             = Some ''/cat/schemas/foo.xsd''"
    by code_simp
  from decoded_key_same_path [where unquote = unquote_ascii, OF h1 h2 h3] h1 h2
  show ?thesis
    unfolding create_uri_mapper_def by blast
qed

text \<open>
  Claim C3 as stated fails at the dictionary whose one key is
  \<open>urn%3Aexample%3Afoo\<close>: the input \<open>urn%3Aexample%3Afoo\<close> is a key, yet the
  resolver returns the path for it and another value for its decoded form
  \<open>urn:example:foo\<close>.
\<close>

theorem encoded_key_counterexample:
  "uri_mapper unquote_ascii [(''urn%3Aexample%3Afoo'', ''/cat/schemas/foo.xsd'')]
     (Some ''urn%3Aexample%3Afoo'')
   \<noteq> uri_mapper unquote_ascii [(''urn%3Aexample%3Afoo'', ''/cat/schemas/foo.xsd'')]
       (Some (unquote_ascii ''urn%3Aexample%3Afoo''))"
  by code_simp

text \<open>
  Claim C4. For \<open>None\<close> the resolver returns \<open>None\<close> and looks no key up,
  whatever the dictionary holds.
\<close>

theorem none_returns_none:
  "uri_mapper unquote m None = None \<and> uri_mapper_lookups unquote m None = []"
  by (simp add: uri_mapper_def uri_mapper_lookups_def)

text \<open>
  Claim C5. When neither \<open>u\<close> nor its decoded form is a key, the resolver
  returns \<open>u\<close> as it was given. The resolver is a total function to
  \<open>string option\<close>: it has no branch that raises.
\<close>

theorem unmapped_uri_unchanged:
  assumes "map_of m u = None"
    and "map_of m (unquote u) = None"
  shows "uri_mapper unquote m (Some u) = Some u"
  using assms by (simp add: uri_mapper_def py_or_def)

text \<open>
  An instance: an input with an escape that is no key, neither as written nor
  decoded, comes back with its escape.
\<close>

theorem unmapped_uri_unchanged_witness:
  "map_of [(''urn:example:foo'', ''/cat/schemas/foo.xsd'')] ''urn:unknown%20one'' = None
   \<and> map_of [(''urn:example:foo'', ''/cat/schemas/foo.xsd'')]
        (unquote_ascii ''urn:unknown%20one'') = None
   \<and> uri_mapper unquote_ascii [(''urn:example:foo'', ''/cat/schemas/foo.xsd'')]
        (Some ''urn:unknown%20one'') = Some ''urn:unknown%20one''"
proof -
  let ?m = "[(''urn:example:foo'', ''/cat/schemas/foo.xsd'')]"
  have h1: "map_of ?m ''urn:unknown%20one'' = None"
    by code_simp
  have h2: "map_of ?m (unquote_ascii ''urn:unknown%20one'') = None"
    by code_simp
  from unmapped_uri_unchanged [where unquote = unquote_ascii, OF h1 h2] h1 h2
  show ?thesis by blast
qed


section \<open>Properties of the extractor\<close>

lemma nth_all_map:
  "length ys = length xs \<Longrightarrow> \<forall>i<length xs. ys ! i = f (xs ! i) \<Longrightarrow> ys = map f xs"
  by (simp add: list_eq_iff_nth_eq)

text \<open>
  Claim C6. Each of \<open>min_occurs\<close>, \<open>max_occurs\<close>, \<open>nillable\<close> and \<open>default\<close> that
  the element object lacks gets its default in the extracted dictionary:
  \<open>1\<close>, \<open>1\<close>, \<open>False\<close> and \<open>None\<close>.
\<close>

theorem missing_element_fields_default:
  "(el_min_occurs e = Missing \<longrightarrow> ei_min_occurs (extract_element_info e) = Some 1)
   \<and> (el_max_occurs e = Missing \<longrightarrow> ei_max_occurs (extract_element_info e) = Some 1)
   \<and> (el_nillable e = Missing \<longrightarrow> ei_nillable (extract_element_info e) = False)
   \<and> (el_default e = Missing \<longrightarrow> ei_default (extract_element_info e) = None)"
  by (simp add: extract_element_info_def)

text \<open>
  An instance: an element object with a name and nothing else.
\<close>

theorem missing_element_fields_default_witness:
  "el_min_occurs (ElementObj (Some ''{urn:x}item'') (Some ''item'') None
       Missing Missing Missing Missing) = Missing
   \<and> el_max_occurs (ElementObj (Some ''{urn:x}item'') (Some ''item'') None
       Missing Missing Missing Missing) = Missing
   \<and> el_nillable (ElementObj (Some ''{urn:x}item'') (Some ''item'') None
       Missing Missing Missing Missing) = Missing
   \<and> el_default (ElementObj (Some ''{urn:x}item'') (Some ''item'') None
       Missing Missing Missing Missing) = Missing
   \<and> extract_element_info (ElementObj (Some ''{urn:x}item'') (Some ''item'') None
       Missing Missing Missing Missing)
     = \<lparr>ei_name = Some ''{urn:x}item'', ei_qualified_name = Some ''{urn:x}item'',
        ei_type = None, ei_min_occurs = Some 1, ei_max_occurs = Some 1,
        ei_nillable = False, ei_default = None\<rparr>"
proof -
  let ?e = "ElementObj (Some ''{urn:x}item'') (Some ''item'') None Missing Missing Missing Missing"
  have v: "extract_element_info ?e
     = \<lparr>ei_name = Some ''{urn:x}item'', ei_qualified_name = Some ''{urn:x}item'',
        ei_type = None, ei_min_occurs = ei_min_occurs (extract_element_info ?e),
        ei_max_occurs = ei_max_occurs (extract_element_info ?e),
        ei_nillable = ei_nillable (extract_element_info ?e),
        ei_default = ei_default (extract_element_info ?e)\<rparr>"
    by (simp add: extract_element_info_def py_or_def)
  from missing_element_fields_default [of ?e] have
    "ei_min_occurs (extract_element_info ?e) = Some 1"
    "ei_max_occurs (extract_element_info ?e) = Some 1"
    "ei_nillable (extract_element_info ?e) = False"
    "ei_default (extract_element_info ?e) = None"
    by simp_all
  with v show ?thesis by simp
qed

text \<open>
  Claim C7, as the code has it. For a type object whose attribute collection
  holds the attributes \<open>as\<close>: when \<open>as\<close> is empty the key \<open>attributes\<close> is
  absent; otherwise it is a list as long as \<open>as\<close> whose entry at each index
  is extracted from the attribute at that index.
\<close>

theorem attributes_in_declaration_order:
  assumes "ty_attributes t = Has (Some as)"
  shows "if as = [] then ti_attributes (extract_type_info t) = None
         else (\<exists>infos. ti_attributes (extract_type_info t) = Some infos
                 \<and> length infos = length as
                 \<and> (\<forall>i<length as. infos ! i = attribute_info (as ! i)))"
  using assms by (simp add: extract_type_info_def attributes_of_def)

text \<open>
  An instance: two attributes of the same name and type stay two entries, in
  their order.
\<close>

theorem attributes_in_declaration_order_witness:
  "ty_attributes (TypeObj ''XsdComplexType'' ''XsdComplexType'' (Has (Some ''t'')) (Some ''t'')
       Missing
       (Has (Some [AttributeObj (Some ''b'') None (Has (Some ''required'')) Missing,
                   AttributeObj (Some ''a'') None Missing Missing,
                   AttributeObj (Some ''b'') None (Has (Some ''required'')) Missing])))
     = Has (Some [AttributeObj (Some ''b'') None (Has (Some ''required'')) Missing,
                  AttributeObj (Some ''a'') None Missing Missing,
                  AttributeObj (Some ''b'') None (Has (Some ''required'')) Missing])
   \<and> map ai_name (the (ti_attributes (extract_type_info
       (TypeObj ''XsdComplexType'' ''XsdComplexType'' (Has (Some ''t'')) (Some ''t'')
          Missing
          (Has (Some [AttributeObj (Some ''b'') None (Has (Some ''required'')) Missing,
                      AttributeObj (Some ''a'') None Missing Missing,
                      AttributeObj (Some ''b'') None (Has (Some ''required'')) Missing]))))))
     = [''b'', ''a'', ''b'']"
proof -
  let ?as = "[AttributeObj (Some ''b'') None (Has (Some ''required'')) Missing,
              AttributeObj (Some ''a'') None Missing Missing,
              AttributeObj (Some ''b'') None (Has (Some ''required'')) Missing]"
  let ?t = "TypeObj ''XsdComplexType'' ''XsdComplexType'' (Has (Some ''t'')) (Some ''t'')
              Missing (Has (Some ?as))"
  have h: "ty_attributes ?t = Has (Some ?as)"
    by simp
  have ne: "?as \<noteq> []"
    by simp
  from attributes_in_declaration_order [OF h] ne
  have "\<exists>infos. ti_attributes (extract_type_info ?t) = Some infos
                 \<and> length infos = length ?as
                 \<and> (\<forall>i<length ?as. infos ! i = attribute_info (?as ! i))"
    by (simp only: if_False)
  then obtain infos where i: "ti_attributes (extract_type_info ?t) = Some infos"
    and l: "length infos = length ?as"
    and n: "\<forall>i<length ?as. infos ! i = attribute_info (?as ! i)"
    by blast
  from l n have "infos = map attribute_info ?as"
    by (rule nth_all_map)
  then have "map ai_name infos = [''b'', ''a'', ''b'']"
    by (simp add: attribute_info_def)
  with h i show ?thesis
    by (simp only: option.sel) 
qed

text \<open>
  Claim C7 as stated fails for a type without attributes: the extracted
  dictionary has no key \<open>attributes\<close>, so no list of length \<open>0\<close>.
\<close>

theorem no_attributes_counterexample:
  "ti_attributes (extract_type_info
     (TypeObj ''XsdComplexType'' ''XsdComplexType'' (Has (Some ''t'')) (Some ''t'')
        Missing (Has (Some []))))
   \<noteq> Some []"
  by (simp add: extract_type_info_def attributes_of_def)

text \<open>
  Claim C8. When the content model of a type has no \<open>iter_elements\<close>, or the
  iteration raises an error \<open>e\<close>, the extracted dictionary has no key
  \<open>child_elements\<close>. \<open>extract_type_info\<close> is a total function to
  \<open>type_info\<close>, so the error \<open>e\<close> does not reach its caller.
\<close>

theorem failed_iteration_omits_children:
  assumes "ty_content t = Has (Some c)"
    and "co_iter_elements c = Missing \<or> co_iter_elements c = Has (Inl e)"
  shows "ti_child_elements (extract_type_info t) = None"
  using assms
  by (auto simp: extract_type_info_def child_elements_of_def true_content_def
        try_child_elements_def)

text \<open>
  An instance: the iteration of a non-empty sequence group raises
  \<open>RuntimeError\<close>; the dictionary comes back with its other keys, without
  \<open>child_elements\<close>.
\<close>

theorem failed_iteration_omits_children_witness:
  "ty_content (TypeObj ''XsdComplexType'' ''XsdComplexType'' (Has (Some ''t'')) (Some ''t'')
       (Has (Some (ContentObj ''XsdGroup'' True (Has (Inl (Raised ''RuntimeError''))))))
       Missing)
     = Has (Some (ContentObj ''XsdGroup'' True (Has (Inl (Raised ''RuntimeError'')))))
   \<and> co_iter_elements (ContentObj ''XsdGroup'' True (Has (Inl (Raised ''RuntimeError''))))
     = Has (Inl (Raised ''RuntimeError''))
   \<and> ti_child_elements (extract_type_info
       (TypeObj ''XsdComplexType'' ''XsdComplexType'' (Has (Some ''t'')) (Some ''t'')
          (Has (Some (ContentObj ''XsdGroup'' True (Has (Inl (Raised ''RuntimeError''))))))
          Missing))
     = None
   \<and> ti_content_model (extract_type_info
       (TypeObj ''XsdComplexType'' ''XsdComplexType'' (Has (Some ''t'')) (Some ''t'')
          (Has (Some (ContentObj ''XsdGroup'' True (Has (Inl (Raised ''RuntimeError''))))))
          Missing))
     = Some ''XsdGroup''"
proof -
  let ?c = "ContentObj ''XsdGroup'' True (Has (Inl (Raised ''RuntimeError'')))"
  let ?t = "TypeObj ''XsdComplexType'' ''XsdComplexType'' (Has (Some ''t'')) (Some ''t'')
              (Has (Some ?c)) Missing"
  have h1: "ty_content ?t = Has (Some ?c)"
    by simp
  have h2: "co_iter_elements ?c = Has (Inl (Raised ''RuntimeError''))"
    by simp
  have h2': "co_iter_elements ?c = Missing
             \<or> co_iter_elements ?c = Has (Inl (Raised ''RuntimeError''))"
    using h2 by simp
  have m: "ti_content_model (extract_type_info ?t) = Some ''XsdGroup''"
    by (simp add: extract_type_info_def content_model_of_def true_content_def)
  from failed_iteration_omits_children [OF h1 h2'] h1 h2 m
  show ?thesis by blast
qed

text \<open>
  Claim C10. When the iteration of the content model succeeds with no
  particle, \<open>extract_type_info\<close> and \<open>extract_complex_type_info\<close> leave the key
  \<open>child_elements\<close> absent, and each returns what it returns for the same
  type object with a content model that has no \<open>iter_elements\<close> or whose
  iteration raises.
\<close>

theorem empty_iteration_omits_children:
  assumes "it = Missing \<or> it = Has (Inl e)"
  shows "ti_child_elements
           (extract_type_info
              (TypeObj cls s q n (Has (Some (ContentObj cc tr (Has (Inr []))))) as))
         = None
       \<and> extract_type_info (TypeObj cls s q n (Has (Some (ContentObj cc tr (Has (Inr []))))) as)
         = extract_type_info (TypeObj cls s q n (Has (Some (ContentObj cc tr it))) as)
       \<and> (\<forall>info. extract_complex_type_info
                    (TypeObj cls s q n (Has (Some (ContentObj cc tr (Has (Inr []))))) as)
                  = Inr info
               \<longrightarrow> ti_child_elements info = None)
       \<and> extract_complex_type_info
           (TypeObj cls s q n (Has (Some (ContentObj cc tr (Has (Inr []))))) as)
         = extract_complex_type_info (TypeObj cls s q n (Has (Some (ContentObj cc tr it))) as)"
  using assms
  by (auto simp: extract_type_info_def extract_complex_type_info_def child_elements_of_def
        true_content_def try_child_elements_def content_model_of_def attributes_of_def
        split: pyattr.splits)

text \<open>
  An instance: for a sequence group whose iteration yields nothing and for one
  whose iteration raises \<open>RuntimeError\<close> the two functions return the same
  dictionaries, and \<open>extract_complex_type_info\<close> does return one.
\<close>

theorem empty_iteration_omits_children_witness:
  "extract_type_info
     (TypeObj ''XsdComplexType'' ''XsdComplexType'' (Has (Some ''t'')) (Some ''t'')
        (Has (Some (ContentObj ''XsdGroup'' True (Has (Inr []))))) Missing)
   = extract_type_info
     (TypeObj ''XsdComplexType'' ''XsdComplexType'' (Has (Some ''t'')) (Some ''t'')
        (Has (Some (ContentObj ''XsdGroup'' True (Has (Inl (Raised ''RuntimeError''))))))
        Missing)
   \<and> extract_complex_type_info
     (TypeObj ''XsdComplexType'' ''XsdComplexType'' (Has (Some ''t'')) (Some ''t'')
        (Has (Some (ContentObj ''XsdGroup'' True (Has (Inr []))))) Missing)
   = extract_complex_type_info
     (TypeObj ''XsdComplexType'' ''XsdComplexType'' (Has (Some ''t'')) (Some ''t'')
        (Has (Some (ContentObj ''XsdGroup'' True (Has (Inl (Raised ''RuntimeError''))))))
        Missing)
   \<and> extract_complex_type_info
     (TypeObj ''XsdComplexType'' ''XsdComplexType'' (Has (Some ''t'')) (Some ''t'')
        (Has (Some (ContentObj ''XsdGroup'' True (Has (Inr []))))) Missing)
   = Inr \<lparr>ti_name = Some ''t'', ti_qualified_name = Some ''t'',
          ti_category = ''XsdComplexType'', ti_is_complex = True, ti_is_simple = False,
          ti_content_model = Some ''XsdGroup'', ti_attributes = None,
          ti_child_elements = None\<rparr>"
proof -
  have h: "Has (Inl (Raised ''RuntimeError'')) = Missing
           \<or> (Has (Inl (Raised ''RuntimeError'')) :: (py_error + element_obj list) pyattr)
             = Has (Inl (Raised ''RuntimeError''))"
    by simp
  have v: "extract_complex_type_info
     (TypeObj ''XsdComplexType'' ''XsdComplexType'' (Has (Some ''t'')) (Some ''t'')
        (Has (Some (ContentObj ''XsdGroup'' True (Has (Inr []))))) Missing)
   = Inr \<lparr>ti_name = Some ''t'', ti_qualified_name = Some ''t'',
          ti_category = ''XsdComplexType'', ti_is_complex = True, ti_is_simple = False,
          ti_content_model = Some ''XsdGroup'', ti_attributes = None,
          ti_child_elements = None\<rparr>"
    by (simp add: extract_complex_type_info_def py_or_def content_model_of_def
          true_content_def attributes_of_def child_elements_of_def try_child_elements_def)
  from empty_iteration_omits_children [OF h, of "''XsdComplexType''" "''XsdComplexType''"
      "Has (Some ''t'')" "Some ''t''" "''XsdGroup''" True Missing] v
  show ?thesis by blast
qed

end
